theory Spec2Isabelle
  imports Complex_Main "HOL-Library.Multiset"
begin

section \<open>Data frames of the notebook\<close>

text \<open>
  The notebook \<^verbatim>\<open>notebooks/binary_classification_ML.ipynb\<close> works on two pandas data
  frames, \<^verbatim>\<open>df_all_complete\<close> (every injected fake transient) and
  \<^verbatim>\<open>df_found_complete\<close> (the ones the image subtraction pipeline recovered).
  A data frame is modelled as the list of its rows, in row order. Of a row only the
  columns the notebook reads are kept: the five \<^verbatim>\<open>relevant_cols\<close> and the identifier
  \<^verbatim>\<open>stamp_id\<close>. Column values are exact rationals; the identifier is opaque.
\<close>

record relevant =
  stamp_mag :: rat
  lmt_mag :: rat
  surface_brightness :: rat
  seeing :: rat
  medsky :: rat

record 'i injection = relevant +
  stamp_id :: 'i

record labelled = relevant +
  found :: bool

datatype error = ValueError | IndexingError | LinAlgError | InvalidArgument

text \<open>\<^verbatim>\<open>df.loc[:, relevant_cols]\<close>: every row, the five relevant columns only.\<close>

definition relevant_cols :: "'a relevant_scheme \<Rightarrow> relevant" where
  "relevant_cols r =
     \<lparr>stamp_mag = stamp_mag r, lmt_mag = lmt_mag r,
      surface_brightness = surface_brightness r, seeing = seeing r, medsky = medsky r\<rparr>"

text \<open>
  \<^verbatim>\<open>np.in1d(ar1, ar2)\<close>: a boolean array as long as \<^verbatim>\<open>ar1\<close>, whose entry is true
  where the entry of \<^verbatim>\<open>ar1\<close> occurs in \<^verbatim>\<open>ar2\<close>.
\<close>

definition np_in1d :: "'i list \<Rightarrow> 'i list \<Rightarrow> bool list" where
  "np_in1d ar1 ar2 = map (\<lambda>x. x \<in> set ar2) ar1"

text \<open>\<^verbatim>\<open>~mask\<close> on a boolean array.\<close>

definition np_invert :: "bool list \<Rightarrow> bool list" where
  "np_invert bs = map Not bs"

text \<open>
  \<^verbatim>\<open>df.loc[mask, relevant_cols]\<close> with a boolean array: the rows at the positions where
  the mask is true, in row order. pandas refuses a mask whose length is not the
  frame's.
\<close>

definition loc_mask :: "bool list \<Rightarrow> 'a relevant_scheme list \<Rightarrow> error + relevant list" where
  "loc_mask bs df =
     (if length bs \<noteq> length df then Inl IndexingError
      else Inr (map (relevant_cols \<circ> snd) (filter fst (zip bs df))))"

text \<open>
  \<^verbatim>\<open>df.assign(found=array)\<close>: a new frame with the column \<^verbatim>\<open>found\<close> added, the array
  laid along the rows by position. pandas refuses an array whose length is not the
  frame's.
\<close>

definition assign_row :: "relevant \<Rightarrow> bool \<Rightarrow> labelled" where
  "assign_row r b =
     \<lparr>stamp_mag = stamp_mag r, lmt_mag = lmt_mag r,
      surface_brightness = surface_brightness r, seeing = seeing r, medsky = medsky r,
      found = b\<rparr>"

definition assign_found :: "relevant list \<Rightarrow> bool list \<Rightarrow> error + labelled list" where
  "assign_found df column =
     (if length column \<noteq> length df then Inl ValueError
      else Inr (map (\<lambda>(r, b). assign_row r b) (zip df column)))"

subsection \<open>The cells that select and label (notebook lines 119-127 and 213-215)\<close>

definition df_all :: "'i injection list \<Rightarrow> relevant list" where
  "df_all df_all_complete = map relevant_cols df_all_complete"

definition df_found :: "'i injection list \<Rightarrow> relevant list" where
  "df_found df_found_complete = map relevant_cols df_found_complete"

definition missed_mask :: "'i injection list \<Rightarrow> 'i injection list \<Rightarrow> bool list" where
  "missed_mask df_all_complete df_found_complete =
     np_invert (np_in1d (map stamp_id df_all_complete) (map stamp_id df_found_complete))"

definition df_missed :: "'i injection list \<Rightarrow> 'i injection list \<Rightarrow> error + relevant list" where
  "df_missed df_all_complete df_found_complete =
     loc_mask (missed_mask df_all_complete df_found_complete) df_all_complete"

text \<open>
  Line 214, the label derivation:
  \<^verbatim>\<open>df_all = df_all.assign(found=np.in1d(df_all_complete['stamp_id'].values,
                                          df_found_complete['stamp_id'].values))\<close>
\<close>

definition deriveLabels :: "'i injection list \<Rightarrow> 'i injection list \<Rightarrow> error + labelled list" where
  "deriveLabels df_all_complete df_found_complete =
     assign_found (df_all df_all_complete)
       (np_in1d (map stamp_id df_all_complete) (map stamp_id df_found_complete))"

section \<open>Library calls of the classification cells\<close>

text \<open>
  From line 272 on the notebook calls scikit-learn and numpy: \<^verbatim>\<open>train_test_split\<close>,
  \<^verbatim>\<open>KNeighborsClassifier\<close>, \<^verbatim>\<open>DataFrame.cov\<close>, \<^verbatim>\<open>np.linalg.inv\<close> and the element-wise
  boolean functions. Their code is not part of the repository. The boolean functions
  and the arithmetic are written out; the random number generator, the covariance and
  the matrix inverse are parameters of the model; the k-nearest-neighbour classifier
  follows the contract the specification gives for it.
\<close>

subsection \<open>Element-wise boolean functions and true division\<close>

text \<open>
  \<^verbatim>\<open>np.logical_xor(x1, x2)\<close> on one-dimensional boolean arrays. Arrays of one length
  are combined position by position; an array of length one is broadcast along the
  other; any other pair of lengths is refused.
\<close>

definition np_logical_xor :: "bool list \<Rightarrow> bool list \<Rightarrow> error + bool list" where
  "np_logical_xor x1 x2 =
     (if length x1 = length x2 then Inr (map (\<lambda>(a, b). a \<noteq> b) (zip x1 x2))
      else if length x1 = 1 then Inr (map (\<lambda>b. hd x1 \<noteq> b) x2)
      else if length x2 = 1 then Inr (map (\<lambda>a. a \<noteq> hd x2) x1)
      else Inl ValueError)"

definition np_logical_not :: "bool list \<Rightarrow> bool list" where
  "np_logical_not x = map Not x"

text \<open>\<^verbatim>\<open>np.sum\<close> of a boolean array: the number of true entries.\<close>

definition np_sum :: "bool list \<Rightarrow> nat" where
  "np_sum x = length (filter (\<lambda>b. b) x)"

text \<open>
  Division of numpy numbers does not raise: a zero divisor gives \<^verbatim>\<open>nan\<close> for a zero
  dividend and an infinity otherwise. Finite values are exact rationals here; the
  rounding of the floating point division is not modelled.
\<close>

datatype np_float = Finite rat | PosInf | NegInf | NaN

definition true_divide :: "rat \<Rightarrow> rat \<Rightarrow> np_float" where
  "true_divide a b =
     (if b \<noteq> 0 then Finite (a / b)
      else if a = 0 then NaN
      else if 0 < a then PosInf else NegInf)"

subsection \<open>Tallying the predictions (lines 402-407, again at 504-509 and 539-544)\<close>

record EvaluationResult =
  correct :: nat
  incorrect :: nat
  percentage_correct :: np_float
  percentage_incorrect :: np_float

text \<open>
  \<^verbatim>\<open>incorrect = np.logical_xor(KNC_predict, y_test)
  correct = np.logical_not(incorrect)
  incorrect = np.sum(incorrect)
  correct = np.sum(correct)
  percentage_correct = 100.*np.float(correct)/(correct+incorrect)
  percentage_incorrect = 100.*incorrect/(correct+incorrect)\<close>
\<close>

definition tally :: "bool list \<Rightarrow> bool list \<Rightarrow> error + EvaluationResult" where
  "tally KNC_predict y_test =
     (case np_logical_xor KNC_predict y_test of
        Inl e \<Rightarrow> Inl e
      | Inr incorrect_mask \<Rightarrow>
          let correct_mask = np_logical_not incorrect_mask;
              n_incorrect = np_sum incorrect_mask;
              n_correct = np_sum correct_mask
          in Inr \<lparr>correct = n_correct, incorrect = n_incorrect,
                  percentage_correct =
                    true_divide (100 * of_nat n_correct) (of_nat (n_correct + n_incorrect)),
                  percentage_incorrect =
                    true_divide (100 * of_nat n_incorrect) (of_nat (n_correct + n_incorrect))\<rparr>)"

text \<open>
  Line 400, \<^verbatim>\<open>KNC_predict = KNC.predict(X_test)\<close>. The fitted classifier enters as its
  decision on one feature row. The library validates its input and refuses an array
  with no rows; otherwise it returns the array of the decisions on the rows of
  \<^verbatim>\<open>X_test\<close>.
\<close>

definition KNC_predict :: "('x \<Rightarrow> bool) \<Rightarrow> 'x list \<Rightarrow> error + bool list" where
  "KNC_predict predict_row X_test =
     (if X_test = [] then Inl ValueError else Inr (map predict_row X_test))"

text \<open>Lines 400-407: the prediction on the test rows, then the tally.\<close>

definition evaluate :: "('x \<Rightarrow> bool) \<Rightarrow> 'x list \<Rightarrow> bool list \<Rightarrow> error + EvaluationResult" where
  "evaluate predict_row X_test y_test =
     (case KNC_predict predict_row X_test of
        Inl e \<Rightarrow> Inl e
      | Inr predicted \<Rightarrow> tally predicted y_test)"

subsection \<open>Splitting into training and testing rows\<close>

record ('x, 'y) Split =
  ind_train :: "nat list"
  ind_test :: "nat list"
  X_train :: "'x list"
  X_test :: "'x list"
  y_train :: "'y list"
  y_test :: "'y list"

text \<open>
  Modelled from the spec: \<^verbatim>\<open>train_test_split\<close> of scikit-learn, whose code is not in the
  repository (the spec's \<^verbatim>\<open>makeSplit(records, testFraction, seed)\<close>: a partition into
  disjoint training and testing groups by random sampling without replacement at a
  configurable fraction, deterministic given a seed, refused for a fraction outside
  (0,1) and for an empty collection). The library draws one permutation of the row
  positions, takes its first \<open>\<lceil>test_size * n\<rceil>\<close> positions as the test rows and the
  remaining ones as the training rows.

  The generator is a parameter: \<open>permutation g n\<close> is the permutation of
  \<open>[0..<n]\<close> a generator in state \<open>g\<close> draws, with the state it leaves, and
  \<open>RandomState seed\<close> is the state of a fresh generator seeded with \<open>seed\<close>.
  \<^verbatim>\<open>random_state=ii\<close> draws from \<open>RandomState ii\<close> and leaves the ambient generator of
  the process alone; without \<^verbatim>\<open>random_state\<close> the permutation is drawn from the ambient
  generator, which advances.

  The library returns the four arrays; the positions drawn are kept beside them, to say
  which row went where. Rows are read at the drawn positions, so the model describes
  the library only for a generator that draws positions below \<open>n\<close>.
\<close>

definition train_test_split ::
  "('g \<Rightarrow> nat \<Rightarrow> nat list \<times> 'g) \<Rightarrow> (nat \<Rightarrow> 'g) \<Rightarrow>
   'x list \<Rightarrow> 'y list \<Rightarrow> rat \<Rightarrow> nat option \<Rightarrow> 'g \<Rightarrow> (error + ('x, 'y) Split) \<times> 'g" where
  "train_test_split permutation RandomState features targets test_size random_state ambient =
     (let n = length features in
      if length targets \<noteq> n then (Inl ValueError, ambient)
      else if n = 0 then (Inl ValueError, ambient)
      else if \<not> (0 < test_size \<and> test_size < 1) then (Inl ValueError, ambient)
      else
        let n_test = nat \<lceil>test_size * of_nat n\<rceil>;
            n_train = n - n_test;
            (perm, ambient') =
              (case random_state of
                 None \<Rightarrow> permutation ambient n
               | Some seed \<Rightarrow> (fst (permutation (RandomState seed) n), ambient));
            test = take n_test perm;
            train = take n_train (drop n_test perm)
        in (Inr \<lparr>ind_train = train, ind_test = test,
                  X_train = map (\<lambda>i. features ! i) train, X_test = map (\<lambda>i. features ! i) test,
                  y_train = map (\<lambda>i. targets ! i) train, y_test = map (\<lambda>i. targets ! i) test\<rparr>,
            ambient'))"

text \<open>
  Line 381, the example split that is plotted:
  \<^verbatim>\<open>train_test_split(features, targets, test_size=0.1)\<close>
\<close>

definition example_split ::
  "('g \<Rightarrow> nat \<Rightarrow> nat list \<times> 'g) \<Rightarrow> (nat \<Rightarrow> 'g) \<Rightarrow>
   'x list \<Rightarrow> 'y list \<Rightarrow> 'g \<Rightarrow> (error + ('x, 'y) Split) \<times> 'g" where
  "example_split permutation RandomState features targets ambient =
     train_test_split permutation RandomState features targets (1 / 10) None ambient"

text \<open>
  Lines 396-397, 494-495 and 533-534, the split of trial \<^verbatim>\<open>ii\<close> in each of the three
  loops: \<^verbatim>\<open>train_test_split(features, targets, test_size=0.1, random_state=ii)\<close>
\<close>

definition trial_split ::
  "('g \<Rightarrow> nat \<Rightarrow> nat list \<times> 'g) \<Rightarrow> (nat \<Rightarrow> 'g) \<Rightarrow>
   'x list \<Rightarrow> 'y list \<Rightarrow> nat \<Rightarrow> 'g \<Rightarrow> (error + ('x, 'y) Split) \<times> 'g" where
  "trial_split permutation RandomState features targets ii ambient =
     train_test_split permutation RandomState features targets (1 / 10) (Some ii) ambient"

text \<open>
  A generator to run the model on: its state is a counter, and it draws the identity
  permutation rotated by the counter. It stands for numpy's Mersenne Twister, of which
  only two facts matter here: what it draws depends on its state, and drawing advances
  the state.
\<close>

definition rotating_permutation :: "nat \<Rightarrow> nat \<Rightarrow> nat list \<times> nat" where
  "rotating_permutation g n = (rotate g [0..<n], Suc g)"

definition rotating_RandomState :: "nat \<Rightarrow> nat" where
  "rotating_RandomState seed = seed"

subsection \<open>The k-nearest-neighbour classifier\<close>

datatype metric = Euclidean | Mahalanobis "rat list list"

record classifier =
  n_neighbors :: nat
  dist_metric :: metric
  fit_X :: "rat list list"
  fit_y :: "bool list"

text \<open>
  Lines 291, 398 and 535: \<^verbatim>\<open>KNeighborsClassifier(num_neighbors)\<close>, and lines 498-500 with
  \<^verbatim>\<open>metric='mahalanobis', metric_params={'VI': inv_cov}\<close>. The constructor stores its
  parameters; the classifier holds no training data yet.
\<close>

definition KNeighborsClassifier :: "nat \<Rightarrow> metric \<Rightarrow> classifier" where
  "KNeighborsClassifier num_neighbors m =
     \<lparr>n_neighbors = num_neighbors, dist_metric = m, fit_X = [], fit_y = []\<rparr>"

text \<open>
  Modelled from the spec: \<^verbatim>\<open>KNeighborsClassifier.fit\<close> of scikit-learn, whose code is not
  in the repository (the spec's \<^verbatim>\<open>fit(trainFeatures, trainLabels, k, metric)\<close>: stores the
  training feature vectors and labels; \<open>k\<close> must be a positive integer at most the
  number of training records, else \<^verbatim>\<open>InvalidArgument\<close>). Feature and label arrays of
  different lengths are refused.
\<close>

definition fit :: "classifier \<Rightarrow> rat list list \<Rightarrow> bool list \<Rightarrow> error + classifier" where
  "fit KNC X y =
     (if length X \<noteq> length y then Inl ValueError
      else if n_neighbors KNC = 0 \<or> length X < n_neighbors KNC then Inl InvalidArgument
      else Inr (KNC\<lparr>fit_X := X, fit_y := y\<rparr>))"

text \<open>
  Modelled from the spec: the distance of \<^verbatim>\<open>KNeighborsClassifier\<close>, whose code is not in
  the repository (Euclidean: raw feature vectors, unweighted; Mahalanobis: weighted by
  the supplied inverse covariance matrix \<open>VI\<close>). The squared distance is computed, which
  orders the points as the distance does and stays rational.
\<close>

definition dot :: "rat list \<Rightarrow> rat list \<Rightarrow> rat" where
  "dot u v = sum_list (map (\<lambda>(a, b). a * b) (zip u v))"

definition vec_sub :: "rat list \<Rightarrow> rat list \<Rightarrow> rat list" where
  "vec_sub u v = map (\<lambda>(a, b). a - b) (zip u v)"

definition mat_vec :: "rat list list \<Rightarrow> rat list \<Rightarrow> rat list" where
  "mat_vec M v = map (\<lambda>row. dot row v) M"

fun sq_dist :: "metric \<Rightarrow> rat list \<Rightarrow> rat list \<Rightarrow> rat" where
  "sq_dist Euclidean u v = dot (vec_sub u v) (vec_sub u v)"
| "sq_dist (Mahalanobis VI) u v = dot (vec_sub u v) (mat_vec VI (vec_sub u v))"

text \<open>
  Modelled from the spec: \<^verbatim>\<open>KNeighborsClassifier.kneighbors\<close>, \<^verbatim>\<open>predict_proba\<close> and
  \<^verbatim>\<open>predict\<close> of scikit-learn, whose code is not in the repository (the spec's
  brute-force reference: the \<open>k\<close> training points nearest to the query under the
  classifier's metric, ties in distance broken by the index order of the training
  data; \<^verbatim>\<open>predictProbability\<close> is the fraction of these \<open>k\<close> neighbours whose label is
  true; \<^verbatim>\<open>predict\<close> is their majority vote, as the notebook says of \<^verbatim>\<open>KNC.predict\<close> at
  line 326). The positions of the training rows are sorted by distance with a stable
  sort; a vote that is tied goes to \<^verbatim>\<open>False\<close>.
\<close>

definition kneighbors :: "classifier \<Rightarrow> rat list \<Rightarrow> nat list" where
  "kneighbors KNC q =
     take (n_neighbors KNC)
       (sort_key (\<lambda>i. sq_dist (dist_metric KNC) (fit_X KNC ! i) q) [0..<length (fit_X KNC)])"

definition votes :: "classifier \<Rightarrow> rat list \<Rightarrow> bool \<Rightarrow> nat" where
  "votes KNC q label = length (filter (\<lambda>i. fit_y KNC ! i = label) (kneighbors KNC q))"

definition predict_proba :: "classifier \<Rightarrow> rat list \<Rightarrow> rat" where
  "predict_proba KNC q = of_nat (votes KNC q True) / of_nat (n_neighbors KNC)"

definition predict :: "classifier \<Rightarrow> rat list \<Rightarrow> bool" where
  "predict KNC q = (votes KNC q False < votes KNC q True)"

subsection \<open>The trial loops\<close>

text \<open>
  Lines 398-407 (and 535-544), the body of a Euclidean trial once the split is drawn:
  a fresh classifier is constructed, fitted on the training rows and evaluated on the
  test rows.
\<close>

definition euclidean_trial ::
  "nat \<Rightarrow> (rat list, bool) Split \<Rightarrow> error + EvaluationResult" where
  "euclidean_trial num_neighbors sp =
     (case fit (KNeighborsClassifier num_neighbors Euclidean) (X_train sp) (y_train sp) of
        Inl e \<Rightarrow> Inl e
      | Inr KNC \<Rightarrow> evaluate (predict KNC) (X_test sp) (y_test sp))"

text \<open>
  The variables of the notebook that the Mahalanobis cells assign. Line 476 assigns
  \<^verbatim>\<open>cov = features.cov()\<close>, the covariance of all rows; the loop body assigns
  \<^verbatim>\<open>cov\<close> again.
\<close>

record notebook =
  cov :: "rat list list"
  inv_cov :: "rat list list"
  KNC :: classifier

definition cov_cell :: "(rat list list \<Rightarrow> rat list list) \<Rightarrow> rat list list \<Rightarrow> notebook \<Rightarrow> notebook" where
  "cov_cell DataFrame_cov features s = s\<lparr>cov := DataFrame_cov features\<rparr>"

text \<open>
  Lines 496-501, with \<^verbatim>\<open>DataFrame.cov\<close> and \<^verbatim>\<open>np.linalg.inv\<close> as parameters
  (\<^verbatim>\<open>np.linalg.inv\<close> may raise):
  \<^verbatim>\<open>cov = X_train.cov()
  inv_cov = np.linalg.inv(cov)
  KNC = KNeighborsClassifier(num_neighbors, metric='mahalanobis',
                             metric_params={'VI': inv_cov}, n_jobs=-1)
  KNC.fit(X_train, y_train)\<close>
\<close>

definition mahalanobis_fit ::
  "(rat list list \<Rightarrow> rat list list) \<Rightarrow> (rat list list \<Rightarrow> error + rat list list) \<Rightarrow>
   nat \<Rightarrow> (rat list, bool) Split \<Rightarrow> notebook \<Rightarrow> error + notebook" where
  "mahalanobis_fit DataFrame_cov linalg_inv num_neighbors sp s =
     (let s1 = s\<lparr>cov := DataFrame_cov (X_train sp)\<rparr> in
      case linalg_inv (cov s1) of
        Inl e \<Rightarrow> Inl e
      | Inr VI \<Rightarrow>
          let s2 = s1\<lparr>inv_cov := VI\<rparr>;
              s3 = s2\<lparr>KNC := KNeighborsClassifier num_neighbors (Mahalanobis (inv_cov s2))\<rparr>
          in (case fit (KNC s3) (X_train sp) (y_train sp) of
                Inl e \<Rightarrow> Inl e
              | Inr fitted \<Rightarrow> Inr (s3\<lparr>KNC := fitted\<rparr>)))"

text \<open>
  A covariance and an inverse to run the model on, for frames of a single column: the
  sample variance of the column (normalised by \<open>n - 1\<close>, as \<^verbatim>\<open>DataFrame.cov\<close> does), and
  the reciprocal of a one-by-one matrix, refused when its entry is zero.
\<close>

definition column_cov :: "rat list list \<Rightarrow> rat list list" where
  "column_cov X =
     (let xs = map hd X;
          mean = sum_list xs / of_nat (length xs)
      in [[sum_list (map (\<lambda>x. (x - mean) * (x - mean)) xs) / (of_nat (length xs) - 1)]])"

definition scalar_inv :: "rat list list \<Rightarrow> error + rat list list" where
  "scalar_inv M = (if hd (hd M) = 0 then Inl LinAlgError else Inr [[1 / hd (hd M)]])"

text \<open>Lines 496-509, the body of a Mahalanobis trial once the split is drawn.\<close>

definition mahalanobis_trial ::
  "(rat list list \<Rightarrow> rat list list) \<Rightarrow> (rat list list \<Rightarrow> error + rat list list) \<Rightarrow>
   nat \<Rightarrow> (rat list, bool) Split \<Rightarrow> notebook \<Rightarrow> error + notebook \<times> EvaluationResult" where
  "mahalanobis_trial DataFrame_cov linalg_inv num_neighbors sp s =
     (case mahalanobis_fit DataFrame_cov linalg_inv num_neighbors sp s of
        Inl e \<Rightarrow> Inl e
      | Inr s' \<Rightarrow>
          (case evaluate (predict (KNC s')) (X_test sp) (y_test sp) of
             Inl e \<Rightarrow> Inl e
           | Inr r \<Rightarrow> Inr (s', r)))"

section \<open>Label derivation\<close>

lemma relevant_cols_assign_row: "relevant_cols (assign_row r b) = r"
  by (simp add: relevant_cols_def assign_row_def)

lemma found_assign_row: "found (assign_row r b) = b"
  by (simp add: assign_row_def)

lemma length_np_in1d: "length (np_in1d ar1 ar2) = length ar1"
  by (simp add: np_in1d_def)

lemma deriveLabels_Inr:
  "deriveLabels c f =
     Inr (map (\<lambda>x. assign_row (relevant_cols x) (stamp_id x \<in> stamp_id ` set f)) c)"
proof -
  have "zip (map relevant_cols c) (map (\<lambda>x. x \<in> set (map stamp_id f)) (map stamp_id c))
          = map (\<lambda>x. (relevant_cols x, stamp_id x \<in> stamp_id ` set f)) c"
    by (induction c) simp_all
  then show ?thesis
    by (simp add: deriveLabels_def assign_found_def df_all_def np_in1d_def)
qed

text \<open>
  C1. For every complete and recovered record set, the label derivation yields one
  labelled record per record of the complete set, in the order of the complete set:
  the labelled frame has the length of the complete frame, its relevant columns are row
  by row those of the complete frame, and its \<^verbatim>\<open>found\<close> column is row by row
  whether the row's identifier occurs among the identifiers of the recovered set.
\<close>

theorem deriveLabels_one_label_per_record:
  "\<exists>ls. deriveLabels complete_set recovered_set = Inr ls
      \<and> length ls = length complete_set
      \<and> map relevant_cols ls = map relevant_cols complete_set
      \<and> map found ls = map (\<lambda>r. stamp_id r \<in> stamp_id ` set recovered_set) complete_set"
  by (simp add: deriveLabels_Inr relevant_cols_assign_row found_assign_row comp_def)


text \<open>
  Ten records with identifiers 0 to 9 and magnitudes 18 to 27, of which the five
  brightest are recovered: the first five are labelled found, the other five not.
\<close>

lemma deriveLabels_scenario:
  "deriveLabels
     (map (\<lambda>i. \<lparr>stamp_mag = 18 + of_nat i, lmt_mag = 0, surface_brightness = 0, seeing = 0,
                 medsky = 0, stamp_id = i\<rparr>) [0, 1, 2, 3, 4, 5, 6, 7, 8, 9 :: nat])
     (map (\<lambda>i. \<lparr>stamp_mag = 18 + of_nat i, lmt_mag = 0, surface_brightness = 0, seeing = 0,
                 medsky = 0, stamp_id = i\<rparr>) [0, 1, 2, 3, 4 :: nat])
   = Inr (map (\<lambda>i. \<lparr>stamp_mag = 18 + of_nat i, lmt_mag = 0, surface_brightness = 0, seeing = 0,
                 medsky = 0, found = i < 5\<rparr>) [0, 1, 2, 3, 4, 5, 6, 7, 8, 9 :: nat])"
  by (simp add: deriveLabels_Inr relevant_cols_def assign_row_def)

lemma loc_mask_map:
  "map (relevant_cols \<circ> snd) (filter fst (zip (map P c) c)) = map relevant_cols (filter P c)"
  by (induction c) simp_all

lemma df_missed_Inr:
  "df_missed c f = Inr (map relevant_cols (filter (\<lambda>x. stamp_id x \<notin> stamp_id ` set f) c))"
proof -
  have m: "missed_mask c f = map (\<lambda>x. stamp_id x \<notin> stamp_id ` set f) c"
    by (simp add: missed_mask_def np_invert_def np_in1d_def comp_def)
  show ?thesis
    by (simp add: df_missed_def loc_mask_def m loc_mask_map)
qed

lemma mset_split_by_label:
  "mset (map h (filter P xs)) + mset (map h (filter (\<lambda>x. \<not> P x) xs)) = mset (map h xs)"
  by (induction xs) simp_all

text \<open>
  C10. A record of the complete set is placed in the missed subset exactly when its
  derived \<^verbatim>\<open>found\<close> label is false: the mask that selects \<^verbatim>\<open>df_missed\<close> is row by
  row the negation of the \<^verbatim>\<open>found\<close> column, and \<^verbatim>\<open>df_missed\<close> is the labelled frame
  restricted to the rows labelled false. Consequently the rows labelled true and the
  missed rows partition the complete set: together they are its rows, each once.
\<close>

theorem missed_iff_not_found:
  "\<exists>ls ms. deriveLabels complete_set recovered_set = Inr ls
      \<and> df_missed complete_set recovered_set = Inr ms
      \<and> missed_mask complete_set recovered_set = map (\<lambda>l. \<not> found l) ls
      \<and> ms = map relevant_cols (filter (\<lambda>l. \<not> found l) ls)
      \<and> mset (map relevant_cols (filter found ls)) + mset ms = mset (df_all complete_set)"
proof -
  let ?g = "\<lambda>x. assign_row (relevant_cols x) (stamp_id x \<in> stamp_id ` set recovered_set)"
  let ?ls = "map ?g complete_set"
  have mask: "missed_mask complete_set recovered_set = map (\<lambda>l. \<not> found l) ?ls"
    by (simp add: missed_mask_def np_invert_def np_in1d_def comp_def found_assign_row)
  have ms: "map relevant_cols (filter (\<lambda>x. stamp_id x \<notin> stamp_id ` set recovered_set) complete_set)
      = map relevant_cols (filter (\<lambda>l. \<not> found l) ?ls)"
    by (simp add: filter_map comp_def found_assign_row relevant_cols_assign_row)
  have cols: "map relevant_cols ?ls = df_all complete_set"
    by (simp add: df_all_def comp_def relevant_cols_assign_row)
  have part: "mset (map relevant_cols (filter found ?ls))
        + mset (map relevant_cols (filter (\<lambda>l. \<not> found l) ?ls)) = mset (df_all complete_set)"
    by (rule mset_split_by_label [of relevant_cols found ?ls, unfolded cols])
  show ?thesis
    using mask ms part by (simp add: deriveLabels_Inr df_missed_Inr)
qed

text \<open>
  When identifiers are unique in both frames and every recovered row is a row of the
  complete frame, the recovered rows are exactly the rows labelled found, so
  \<^verbatim>\<open>df_found\<close> and \<^verbatim>\<open>df_missed\<close> partition \<^verbatim>\<open>df_all\<close>.
\<close>


lemma recovered_rows_are_labelled_found:
  assumes "distinct (map stamp_id complete_set)" and "distinct (map stamp_id recovered_set)"
    and "set recovered_set \<subseteq> set complete_set"
  shows "mset recovered_set
           = mset (filter (\<lambda>x. stamp_id x \<in> stamp_id ` set recovered_set) complete_set)"
proof -
  let ?sel = "filter (\<lambda>x. stamp_id x \<in> stamp_id ` set recovered_set) complete_set"
  have inj: "inj_on stamp_id (set complete_set)"
    using assms(1) by (simp add: distinct_map)
  have sets: "set recovered_set = set ?sel"
  proof (rule sym, rule)
    show "set ?sel \<subseteq> set recovered_set"
    proof
      fix x assume "x \<in> set ?sel"
      then have x: "x \<in> set complete_set" and "stamp_id x \<in> stamp_id ` set recovered_set"
        by simp_all
      then obtain y where y: "y \<in> set recovered_set" and eq: "stamp_id x = stamp_id y"
        by blast
      from y assms(3) have "y \<in> set complete_set" by blast
      with inj x eq have "x = y" by (simp add: inj_on_def)
      with y show "x \<in> set recovered_set" by simp
    qed
    show "set recovered_set \<subseteq> set ?sel"
      using assms(3) by auto
  qed
  have d_sel: "distinct ?sel"
    using assms(1) by (simp add: distinct_map)
  have d_rec: "distinct recovered_set"
    using assms(2) by (simp add: distinct_map)
  show ?thesis
    using sets by (simp only: set_eq_iff_mset_eq_distinct [OF d_rec d_sel])
qed

lemma found_and_missed_partition:
  assumes "distinct (map stamp_id complete_set)" and "distinct (map stamp_id recovered_set)"
    and "set recovered_set \<subseteq> set complete_set"
  shows "\<exists>ms. df_missed complete_set recovered_set = Inr ms
      \<and> mset (df_found recovered_set) + mset ms = mset (df_all complete_set)"
proof -
  let ?P = "\<lambda>x. stamp_id x \<in> stamp_id ` set recovered_set"
  have "mset (df_found recovered_set) = mset (map relevant_cols (filter ?P complete_set))"
    unfolding df_found_def mset_map
    by (simp only: recovered_rows_are_labelled_found [OF assms])
  then have "mset (df_found recovered_set)
      + mset (map relevant_cols (filter (\<lambda>x. \<not> ?P x) complete_set)) = mset (df_all complete_set)"
    unfolding df_all_def by (simp only: mset_split_by_label)
  then show ?thesis
    by (simp add: df_missed_Inr)
qed

section \<open>Evaluation\<close>


lemma np_sum_card: "np_sum m = card {i. i < length m \<and> m ! i}"
  by (simp add: np_sum_def length_filter_conv_card)

lemma np_sum_not_card: "np_sum (np_logical_not m) = card {i. i < length m \<and> \<not> m ! i}"
  by (simp add: np_sum_def np_logical_not_def length_filter_conv_card cong: conj_cong)

lemma np_sum_total: "np_sum (np_logical_not m) + np_sum m = length m"
  by (induction m) (simp_all add: np_sum_def np_logical_not_def)

lemma tally_same_length:
  assumes "length ps = length ys"
  shows "\<exists>m. length m = length ps \<and> (\<forall>i < length ps. m ! i = (ps ! i \<noteq> ys ! i))
    \<and> tally ps ys =
     Inr \<lparr>correct = np_sum (np_logical_not m), incorrect = np_sum m,
          percentage_correct =
            true_divide (100 * of_nat (np_sum (np_logical_not m))) (of_nat (length ps)),
          percentage_incorrect =
            true_divide (100 * of_nat (np_sum m)) (of_nat (length ps))\<rparr>"
proof -
  define m where "m = map (\<lambda>(a, b). a \<noteq> b) (zip ps ys)"
  have len: "length m = length ps"
    using assms by (simp add: m_def)
  have nth: "\<forall>i < length ps. m ! i = (ps ! i \<noteq> ys ! i)"
    using assms by (simp add: m_def)
  have xor: "np_logical_xor ps ys = Inr m"
    using assms by (simp add: np_logical_xor_def m_def)
  have total: "np_sum (np_logical_not m) + np_sum m = length ps"
    using np_sum_total [of m] len by simp
  have "tally ps ys =
     Inr \<lparr>correct = np_sum (np_logical_not m), incorrect = np_sum m,
          percentage_correct =
            true_divide (100 * of_nat (np_sum (np_logical_not m))) (of_nat (length ps)),
          percentage_incorrect =
            true_divide (100 * of_nat (np_sum m)) (of_nat (length ps))\<rparr>"
    by (simp add: tally_def xor Let_def total del: of_nat_add)
  with len nth show ?thesis by blast
qed

lemma evaluate_same_length:
  assumes "length test_features = length test_labels" and "test_features \<noteq> []"
  shows "\<exists>m. length m = length test_features
    \<and> (\<forall>i < length test_features. m ! i = (p (test_features ! i) \<noteq> test_labels ! i))
    \<and> evaluate p test_features test_labels =
     Inr \<lparr>correct = np_sum (np_logical_not m), incorrect = np_sum m,
          percentage_correct =
            true_divide (100 * of_nat (np_sum (np_logical_not m))) (of_nat (length test_features)),
          percentage_incorrect =
            true_divide (100 * of_nat (np_sum m)) (of_nat (length test_features))\<rparr>"
proof -
  have "length (map p test_features) = length test_labels"
    using assms(1) by simp
  from tally_same_length [OF this] show ?thesis
    using assms(2) by (auto simp: evaluate_def KNC_predict_def)
qed

lemma evaluate_empty: "evaluate p [] test_labels = Inl ValueError"
  by (simp add: evaluate_def KNC_predict_def)

text \<open>
  C3. For a classifier, test features and test labels of equal length, the evaluation
  decides each test record on its own (the decision on row \<open>i\<close> is the classifier's
  decision function applied to row \<open>i\<close>, whatever the other rows are), counts a
  record as incorrect exactly when the predicted label differs from the true label, and
  as correct otherwise. (With no test record at all the prediction is refused and
  nothing is counted.)
\<close>

theorem evaluate_counts_mismatches:
  assumes "length test_features = length test_labels"
  shows "(test_features = [] \<longrightarrow> evaluate p test_features test_labels = Inl ValueError)
    \<and> (test_features \<noteq> [] \<longrightarrow>
         (\<exists>r. evaluate p test_features test_labels = Inr r
            \<and> incorrect r
                = card {i. i < length test_features \<and> p (test_features ! i) \<noteq> test_labels ! i}
            \<and> correct r
                = card {i. i < length test_features \<and> p (test_features ! i) = test_labels ! i}))"
proof (intro conjI impI)
  assume "test_features = []"
  then show "evaluate p test_features test_labels = Inl ValueError"
    by (simp add: evaluate_empty)
next
  let ?n = "length test_features"
  assume "test_features \<noteq> []"
  from evaluate_same_length [OF assms this] obtain m where
    len: "length m = ?n" and
    nth: "\<forall>i < ?n. m ! i = (p (test_features ! i) \<noteq> test_labels ! i)" and
    r: "evaluate p test_features test_labels =
          Inr \<lparr>correct = np_sum (np_logical_not m), incorrect = np_sum m,
               percentage_correct = true_divide (100 * of_nat (np_sum (np_logical_not m))) (of_nat ?n),
               percentage_incorrect = true_divide (100 * of_nat (np_sum m)) (of_nat ?n)\<rparr>"
    by blast
  have wrong: "{i. i < length m \<and> m ! i} = {i. i < ?n \<and> p (test_features ! i) \<noteq> test_labels ! i}"
    using len nth by auto
  have right: "{i. i < length m \<and> \<not> m ! i} = {i. i < ?n \<and> p (test_features ! i) = test_labels ! i}"
    using len nth by auto
  have "np_sum m = card {i. i < ?n \<and> p (test_features ! i) \<noteq> test_labels ! i}"
    by (simp only: np_sum_card wrong)
  moreover have "np_sum (np_logical_not m)
      = card {i. i < ?n \<and> p (test_features ! i) = test_labels ! i}"
    by (simp only: np_sum_not_card right)
  ultimately show "\<exists>r. evaluate p test_features test_labels = Inr r
            \<and> incorrect r
                = card {i. i < length test_features \<and> p (test_features ! i) \<noteq> test_labels ! i}
            \<and> correct r
                = card {i. i < length test_features \<and> p (test_features ! i) = test_labels ! i}"
    unfolding r by simp
qed

text \<open>
  C2. Every result the evaluation produces, on test features and labels of one length,
  has two finite percentages that sum to 100 (in exact arithmetic), and counts of correct
  and incorrect predictions that sum to the size of the test set.
\<close>

theorem evaluate_percentages_sum:
  assumes "evaluate p test_features test_labels = Inr r"
    and "length test_features = length test_labels"
  shows "\<exists>pc pi. percentage_correct r = Finite pc \<and> percentage_incorrect r = Finite pi
      \<and> pc + pi = 100
      \<and> correct r + incorrect r = length test_features"
proof -
  let ?n = "length test_features"
  have nonempty: "test_features \<noteq> []"
    using assms(1) by (auto simp: evaluate_empty)
  from evaluate_same_length [OF assms(2) nonempty, of p] obtain m where
    len: "length m = ?n" and
    r: "r = \<lparr>correct = np_sum (np_logical_not m), incorrect = np_sum m,
               percentage_correct = true_divide (100 * of_nat (np_sum (np_logical_not m))) (of_nat ?n),
               percentage_incorrect = true_divide (100 * of_nat (np_sum m)) (of_nat ?n)\<rparr>"
    using assms(1) by auto
  let ?c = "np_sum (np_logical_not m)"
  let ?i = "np_sum m"
  have total: "?c + ?i = ?n"
    using np_sum_total [of m] len by simp
  have pos: "(of_nat ?n :: rat) \<noteq> 0"
    using nonempty by simp
  have "(100 * of_nat ?c) / of_nat ?n + (100 * of_nat ?i) / (of_nat ?n :: rat)
          = 100 * of_nat (?c + ?i) / of_nat ?n"
    by (simp add: add_divide_distrib distrib_left)
  also have "\<dots> = 100"
    using pos by (simp only: total) simp
  finally have hundred: "(100 * of_nat ?c) / of_nat ?n + (100 * of_nat ?i) / (of_nat ?n :: rat) = 100" .
  show ?thesis
    unfolding r using total hundred pos by (simp add: true_divide_def)
qed

lemma evaluate_example:
  "evaluate (\<lambda>x. x < 5) [1, 9, 3 :: nat] [True, True, False]
     = Inr \<lparr>correct = 1, incorrect = 2,
            percentage_correct = Finite (100 / 3), percentage_incorrect = Finite (200 / 3)\<rparr>"
  by (simp add: evaluate_def KNC_predict_def tally_def np_logical_xor_def np_logical_not_def
      np_sum_def true_divide_def Let_def)

theorem evaluate_counts_mismatches_witness:
  "length [1, 9, 3 :: nat] = length [True, True, False] \<and>
   (\<exists>r. evaluate (\<lambda>x. x < 5) [1, 9, 3 :: nat] [True, True, False] = Inr r
      \<and> incorrect r = card {i. i < length [1, 9, 3 :: nat] \<and> ([1, 9, 3 :: nat] ! i < 5) \<noteq> [True, True, False] ! i}
      \<and> correct r = card {i. i < length [1, 9, 3 :: nat] \<and> ([1, 9, 3 :: nat] ! i < 5) = [True, True, False] ! i})"
proof -
  have h: "length [1, 9, 3 :: nat] = length [True, True, False]" by simp
  show ?thesis
    using h evaluate_counts_mismatches [OF h, of "\<lambda>x. x < 5"] by blast
qed

theorem evaluate_percentages_sum_witness:
  "evaluate (\<lambda>x. x < 5) [1, 9, 3 :: nat] [True, True, False]
     = Inr \<lparr>correct = 1, incorrect = 2,
            percentage_correct = Finite (100 / 3), percentage_incorrect = Finite (200 / 3)\<rparr>
   \<and> length [1, 9, 3 :: nat] = length [True, True, False]
   \<and> (\<exists>pc pi. percentage_correct \<lparr>correct = 1, incorrect = 2,
            percentage_correct = Finite (100 / 3), percentage_incorrect = Finite (200 / 3)\<rparr> = Finite pc
        \<and> percentage_incorrect \<lparr>correct = 1, incorrect = 2,
            percentage_correct = Finite (100 / 3), percentage_incorrect = Finite (200 / 3)\<rparr> = Finite pi
        \<and> pc + pi = 100
        \<and> correct \<lparr>correct = 1, incorrect = 2,
            percentage_correct = Finite (100 / 3), percentage_incorrect = Finite (200 / 3)\<rparr>
          + incorrect \<lparr>correct = 1, incorrect = 2,
            percentage_correct = Finite (100 / 3), percentage_incorrect = Finite (200 / 3)\<rparr>
          = length [1, 9, 3 :: nat])"
proof -
  have h1: "evaluate (\<lambda>x. x < 5) [1, 9, 3 :: nat] [True, True, False]
     = Inr \<lparr>correct = 1, incorrect = 2,
            percentage_correct = Finite (100 / 3), percentage_incorrect = Finite (200 / 3)\<rparr>"
    by (rule evaluate_example)
  have h2: "length [1, 9, 3 :: nat] = length [True, True, False]" by simp
  show ?thesis
    by (intro conjI h1 h2 evaluate_percentages_sum [OF h1 h2])
qed

text \<open>
  The tally alone, on empty arrays, would divide zero by zero; the evaluation never
  reaches it, since the prediction refuses an empty test set.
\<close>

lemma tally_empty:
  "tally [] [] = Inr \<lparr>correct = 0, incorrect = 0, percentage_correct = NaN, percentage_incorrect = NaN\<rparr>"
  by (simp add: tally_def np_logical_xor_def np_logical_not_def np_sum_def
      true_divide_def Let_def)

text \<open>
  When every prediction is right, no prediction is counted incorrect and the percentage
  of correct ones is 100.
\<close>

lemma evaluate_all_correct:
  assumes "test_features \<noteq> []" and "test_labels = map p test_features"
  shows "\<exists>r. evaluate p test_features test_labels = Inr r
      \<and> incorrect r = 0 \<and> correct r = length test_features
      \<and> percentage_correct r = Finite 100 \<and> percentage_incorrect r = Finite 0"
proof -
  have len: "length test_features = length test_labels"
    using assms(2) by simp
  from evaluate_same_length [OF len assms(1), of p] obtain m where
    lm: "length m = length test_features" and
    nth: "\<forall>i < length test_features. m ! i = (p (test_features ! i) \<noteq> test_labels ! i)" and
    r: "evaluate p test_features test_labels =
          Inr \<lparr>correct = np_sum (np_logical_not m), incorrect = np_sum m,
               percentage_correct =
                 true_divide (100 * of_nat (np_sum (np_logical_not m))) (of_nat (length test_features)),
               percentage_incorrect =
                 true_divide (100 * of_nat (np_sum m)) (of_nat (length test_features))\<rparr>"
    by blast
  have "{i. i < length m \<and> m ! i} = {}"
    using lm nth assms(2) by auto
  then have zero: "np_sum m = 0"
    by (simp only: np_sum_card card.empty)
  then have all: "np_sum (np_logical_not m) = length test_features"
    using np_sum_total [of m] lm by simp
  show ?thesis
    unfolding r using assms(1) by (simp add: zero all true_divide_def)
qed


section \<open>Train/test splits\<close>


lemma train_test_split_Inr:
  assumes "features \<noteq> []" and "length targets = length features"
    and "0 < test_size" and "test_size < 1"
  shows "train_test_split permutation RandomState features targets test_size random_state ambient =
     (let n = length features;
          n_test = nat \<lceil>test_size * of_nat n\<rceil>;
          drawn = (case random_state of
                     None \<Rightarrow> permutation ambient n
                   | Some seed \<Rightarrow> (fst (permutation (RandomState seed) n), ambient));
          test = take n_test (fst drawn);
          train = take (n - n_test) (drop n_test (fst drawn))
      in (Inr \<lparr>ind_train = train, ind_test = test,
                X_train = map (\<lambda>i. features ! i) train, X_test = map (\<lambda>i. features ! i) test,
                y_train = map (\<lambda>i. targets ! i) train, y_test = map (\<lambda>i. targets ! i) test\<rparr>,
          snd drawn))"
  using assms by (simp add: train_test_split_def Let_def split: prod.splits)

lemma n_test_bounds:
  fixes test_size :: rat
  assumes "0 < n" and "0 < test_size" and "test_size < 1"
  shows "0 < nat \<lceil>test_size * of_nat n\<rceil>"
    and "nat \<lceil>test_size * of_nat n\<rceil> \<le> n"
    and "test_size * of_nat n \<le> of_nat (nat \<lceil>test_size * of_nat n\<rceil>)"
    and "of_nat (nat \<lceil>test_size * of_nat n\<rceil>) < test_size * of_nat n + 1"
proof -
  let ?x = "test_size * of_nat n"
  have pos: "0 < ?x"
    using assms by simp
  have below: "?x \<le> of_nat n"
    using assms by (simp add: mult_left_le_one_le)
  have c0: "0 < \<lceil>?x\<rceil>"
    using pos by simp
  have cn: "\<lceil>?x\<rceil> \<le> int n"
    using below by (simp add: ceiling_le_iff)
  show "0 < nat \<lceil>?x\<rceil>"
    using c0 by simp
  show "nat \<lceil>?x\<rceil> \<le> n"
    using cn by simp
  have eq: "(of_nat (nat \<lceil>?x\<rceil>) :: rat) = of_int \<lceil>?x\<rceil>"
    using c0 by simp
  show "?x \<le> of_nat (nat \<lceil>?x\<rceil>)"
    unfolding eq by (rule le_of_int_ceiling)
  show "of_nat (nat \<lceil>?x\<rceil>) < ?x + 1"
    unfolding eq using ceiling_correct [of ?x] by linarith
qed

lemma permutation_facts:
  assumes "mset perm = mset [0..<n]"
  shows "length perm = n" and "distinct perm" and "set perm = {0..<n}"
proof -
  show "length perm = n"
    using mset_eq_length [OF assms] by simp
  show "distinct perm"
    using mset_eq_imp_distinct_iff [OF assms] by simp
  show "set perm = {0..<n}"
    using mset_eq_setD [OF assms] by simp
qed

lemma mset_map_nth_permutation:
  assumes "mset perm = mset [0..<length xs]"
  shows "mset (map (\<lambda>i. xs ! i) perm) = mset xs"
proof -
  have "mset (map (\<lambda>i. xs ! i) perm) = image_mset (\<lambda>i. xs ! i) (mset [0..<length xs])"
    by (simp only: mset_map assms)
  also have "\<dots> = mset (map (\<lambda>i. xs ! i) [0..<length xs])"
    by (simp only: mset_map)
  also have "\<dots> = mset xs"
    by (simp only: map_nth)
  finally show ?thesis .
qed

text \<open>
  C5. For every non-empty record collection and every test fraction strictly between 0
  and 1, the split succeeds (provided the generator draws permutations, and features and
  targets have one length) and yields disjoint sets of training and testing positions
  that together are all positions, so that the training and testing rows together are
  the records, each once, and \<open>|train| + |test| = |records|\<close>; the number of test rows is
  the test fraction of the number of records rounded up to an integer, less than one
  above it.
\<close>

theorem train_test_split_partitions:
  assumes perm: "\<And>g n. mset (fst (permutation g n)) = mset [0..<n]"
    and nonempty: "features \<noteq> []"
    and same_length: "length targets = length features"
    and lower: "0 < test_size" and upper: "test_size < 1"
  shows "\<exists>sp. fst (train_test_split permutation RandomState features targets test_size
                    random_state ambient) = Inr sp
      \<and> set (ind_train sp) \<inter> set (ind_test sp) = {}
      \<and> set (ind_train sp) \<union> set (ind_test sp) = {0..<length features}
      \<and> distinct (ind_train sp) \<and> distinct (ind_test sp)
      \<and> X_train sp = map (\<lambda>i. features ! i) (ind_train sp)
      \<and> X_test sp = map (\<lambda>i. features ! i) (ind_test sp)
      \<and> y_train sp = map (\<lambda>i. targets ! i) (ind_train sp)
      \<and> y_test sp = map (\<lambda>i. targets ! i) (ind_test sp)
      \<and> mset (X_train sp) + mset (X_test sp) = mset features
      \<and> length (X_train sp) + length (X_test sp) = length features
      \<and> test_size * of_nat (length features) \<le> of_nat (length (X_test sp))
      \<and> of_nat (length (X_test sp)) < test_size * of_nat (length features) + 1"
proof -
  let ?n = "length features"
  let ?n_test = "nat \<lceil>test_size * of_nat ?n\<rceil>"
  define drawn where "drawn = fst (case random_state of
                     None \<Rightarrow> permutation ambient ?n
                   | Some seed \<Rightarrow> (fst (permutation (RandomState seed) ?n), ambient))"
  define test where "test = take ?n_test drawn"
  define train where "train = take (?n - ?n_test) (drop ?n_test drawn)"
  have drawn: "mset drawn = mset [0..<?n]"
    unfolding drawn_def using perm by (cases random_state) simp_all
  note facts = permutation_facts [OF drawn]
  have n_pos: "0 < ?n"
    using nonempty by simp
  note b = n_test_bounds [OF n_pos lower upper]
  have train': "train = drop ?n_test drawn"
    unfolding train_def using facts(1) by simp
  have whole: "test @ train = drawn"
    unfolding train' test_def by simp
  have d: "distinct (test @ train)"
    unfolding whole by (rule facts(2))
  have s: "set test \<union> set train = {0..<?n}"
    using facts(3) whole by (metis set_append)
  have len_test: "length test = ?n_test"
    unfolding test_def using facts(1) b(2) by simp
  have len_train: "length train = ?n - ?n_test"
    unfolding train' using facts(1) by simp
  have m: "mset (map (\<lambda>i. features ! i) train) + mset (map (\<lambda>i. features ! i) test) = mset features"
  proof -
    have "mset (map (\<lambda>i. features ! i) train) + mset (map (\<lambda>i. features ! i) test)
            = mset (map (\<lambda>i. features ! i) (test @ train))"
      by simp
    also have "\<dots> = mset features"
      unfolding whole by (rule mset_map_nth_permutation [OF drawn])
    finally show ?thesis .
  qed
  have r: "fst (train_test_split permutation RandomState features targets test_size
                    random_state ambient) =
      Inr \<lparr>ind_train = train, ind_test = test,
           X_train = map (\<lambda>i. features ! i) train, X_test = map (\<lambda>i. features ! i) test,
           y_train = map (\<lambda>i. targets ! i) train, y_test = map (\<lambda>i. targets ! i) test\<rparr>"
    unfolding train_test_split_Inr [OF nonempty same_length lower upper]
    by (simp add: Let_def drawn_def test_def train_def)
  show ?thesis
    unfolding r using d s m len_test len_train b by auto
qed

text \<open>
  C4 (as amended). Every split of the three trial loops passes \<^verbatim>\<open>random_state=ii\<close>: the
  partition it yields is the same whatever the ambient random state of the process is,
  and the call leaves the ambient state as it found it, so two calls with identical
  records, test fraction and seed yield identical partitions.
\<close>

theorem trial_split_seeded:
  "fst (trial_split permutation RandomState features targets ii ambient1)
     = fst (trial_split permutation RandomState features targets ii ambient2)
   \<and> snd (trial_split permutation RandomState features targets ii ambient1) = ambient1"
  by (simp add: trial_split_def train_test_split_def Let_def split: prod.splits)

lemma mset_rotate_list: "mset (rotate k xs) = mset xs"
proof -
  let ?j = "k mod length xs"
  have "mset (rotate k xs) = mset (drop ?j xs) + mset (take ?j xs)"
    by (simp only: rotate_drop_take mset_append)
  also have "\<dots> = mset (take ?j xs @ drop ?j xs)"
    by (simp only: mset_append add.commute)
  finally show ?thesis
    by (simp only: append_take_drop_id)
qed

lemma rotating_permutation_mset: "mset (fst (rotating_permutation g n)) = mset [0..<n]"
  by (simp only: rotating_permutation_def fst_conv mset_rotate_list)

text \<open>
  C4 as stated fails: the example split of line 381 passes no seed and draws from the
  ambient random state. Called twice in a row on identical records, with the rotating
  generator as the ambient one, it yields two different partitions.
\<close>

theorem example_split_unseeded_counterexample:
  "fst (example_split rotating_permutation rotating_RandomState [10, 20 :: nat] [True, False] 0)
     \<noteq> fst (example_split rotating_permutation rotating_RandomState [10, 20 :: nat] [True, False]
            (snd (example_split rotating_permutation rotating_RandomState
                    [10, 20 :: nat] [True, False] 0)))"
  by code_simp

theorem train_test_split_partitions_witness:
  "(\<forall>g n. mset (fst (rotating_permutation g n)) = mset [0..<n])
   \<and> [18, 19, 20, 21, 22 :: nat] \<noteq> []
   \<and> length [True, True, True, False, False] = length [18, 19, 20, 21, 22 :: nat]
   \<and> (0 :: rat) < 1 / 10 \<and> (1 :: rat) / 10 < 1
   \<and> (\<exists>sp. fst (train_test_split rotating_permutation rotating_RandomState
                    [18, 19, 20, 21, 22 :: nat] [True, True, True, False, False] (1 / 10)
                    (Some 3) (0 :: nat)) = Inr sp
      \<and> set (ind_train sp) \<inter> set (ind_test sp) = {}
      \<and> set (ind_train sp) \<union> set (ind_test sp) = {0..<length [18, 19, 20, 21, 22 :: nat]}
      \<and> distinct (ind_train sp) \<and> distinct (ind_test sp)
      \<and> X_train sp = map (\<lambda>i. [18, 19, 20, 21, 22 :: nat] ! i) (ind_train sp)
      \<and> X_test sp = map (\<lambda>i. [18, 19, 20, 21, 22 :: nat] ! i) (ind_test sp)
      \<and> y_train sp = map (\<lambda>i. [True, True, True, False, False] ! i) (ind_train sp)
      \<and> y_test sp = map (\<lambda>i. [True, True, True, False, False] ! i) (ind_test sp)
      \<and> mset (X_train sp) + mset (X_test sp) = mset [18, 19, 20, 21, 22 :: nat]
      \<and> length (X_train sp) + length (X_test sp) = length [18, 19, 20, 21, 22 :: nat]
      \<and> (1 / 10) * of_nat (length [18, 19, 20, 21, 22 :: nat]) \<le> (of_nat (length (X_test sp)) :: rat)
      \<and> (of_nat (length (X_test sp)) :: rat) < (1 / 10) * of_nat (length [18, 19, 20, 21, 22 :: nat]) + 1)"
proof -
  have h1: "\<And>g n. mset (fst (rotating_permutation g n)) = mset [0..<n]"
    by (rule rotating_permutation_mset)
  have h2: "[18, 19, 20, 21, 22 :: nat] \<noteq> []" by simp
  have h3: "length [True, True, True, False, False] = length [18, 19, 20, 21, 22 :: nat]" by simp
  have h4: "(0 :: rat) < 1 / 10" by simp
  have h5: "(1 :: rat) / 10 < 1" by simp
  note t = train_test_split_partitions [OF h1 h2 h3 h4 h5,
      where RandomState = rotating_RandomState and random_state = "Some 3" and ambient = 0]
  show ?thesis
    by (intro conjI allI h1 h2 h3 h4 h5 t)
qed

lemma train_test_split_example:
  "fst (train_test_split rotating_permutation rotating_RandomState
          [18, 19, 20, 21, 22 :: nat] [True, True, True, False, False] (1 / 10) (Some 3) (0 :: nat))
     = Inr \<lparr>ind_train = [4, 0, 1, 2], ind_test = [3],
            X_train = [22, 18, 19, 20], X_test = [21],
            y_train = [False, True, True, True], y_test = [False]\<rparr>"
  by code_simp

section \<open>Nearest neighbours\<close>


lemma fit_Inr:
  assumes "fit (KNeighborsClassifier k m) X y = Inr clf"
  shows "clf = \<lparr>n_neighbors = k, dist_metric = m, fit_X = X, fit_y = y\<rparr>"
    and "0 < k" and "k \<le> length X" and "length y = length X"
  using assms by (auto simp: fit_def KNeighborsClassifier_def split: if_splits)

lemma take_sorted_nearest:
  assumes "sorted (map d xs)" and "i \<in> set (take k xs)" and "j \<in> set xs" and "j \<notin> set (take k xs)"
  shows "d i \<le> d j"
proof -
  have split: "xs = take k xs @ drop k xs"
    by simp
  have "j \<in> set (take k xs) \<union> set (drop k xs)"
    using assms(3) by (metis split set_append)
  then have j: "j \<in> set (drop k xs)"
    using assms(4) by simp
  have "sorted (map d (take k xs) @ map d (drop k xs))"
    using assms(1) by (metis split map_append)
  then have "\<forall>a \<in> set (map d (take k xs)). \<forall>b \<in> set (map d (drop k xs)). a \<le> b"
    by (simp only: sorted_append) simp
  then show ?thesis
    using assms(2) j by simp
qed

lemma votes_card:
  assumes "distinct ns"
  shows "length (filter (\<lambda>i. y ! i = label) ns) = card {i \<in> set ns. y ! i = label}"
proof -
  have "{i. y ! i = label} \<inter> set ns = {i \<in> set ns. y ! i = label}"
    by auto
  then show ?thesis
    using distinct_length_filter [OF assms, of "\<lambda>i. y ! i = label"] by simp
qed

lemma kneighbors_facts:
  assumes "fit (KNeighborsClassifier k m) X y = Inr clf"
  shows "length (kneighbors clf q) = k"
    and "distinct (kneighbors clf q)"
    and "i \<in> set (kneighbors clf q) \<Longrightarrow> i < length X"
    and "i \<in> set (kneighbors clf q) \<Longrightarrow> j < length X \<Longrightarrow> j \<notin> set (kneighbors clf q)
           \<Longrightarrow> sq_dist m (X ! i) q \<le> sq_dist m (X ! j) q"
proof -
  let ?d = "\<lambda>i. sq_dist m (X ! i) q"
  let ?s = "sort_key ?d [0..<length X]"
  note f = fit_Inr [OF assms]
  have kn: "kneighbors clf q = take k ?s"
    by (simp add: kneighbors_def f(1))
  show "length (kneighbors clf q) = k"
    using f(3) by (simp add: kn)
  show "distinct (kneighbors clf q)"
    by (simp add: kn)
  show "i < length X" if "i \<in> set (kneighbors clf q)"
  proof -
    have "i \<in> set ?s"
      using that unfolding kn by (rule in_set_takeD)
    then show ?thesis by simp
  qed
  show "?d i \<le> ?d j"
    if "i \<in> set (kneighbors clf q)" and "j < length X" and "j \<notin> set (kneighbors clf q)"
  proof (rule take_sorted_nearest [where xs = ?s and k = k])
    show "sorted (map ?d ?s)" by (rule sorted_sort_key)
    show "i \<in> set (take k ?s)" using that(1) unfolding kn .
    show "j \<in> set ?s" using that(2) by simp
    show "j \<notin> set (take k ?s)" using that(3) unfolding kn .
  qed
qed

lemma votes_total:
  assumes "fit (KNeighborsClassifier k m) X y = Inr clf"
  shows "votes clf q True + votes clf q False = k"
proof -
  let ?ns = "kneighbors clf q"
  have "length (filter (\<lambda>i. fit_y clf ! i) ?ns) + length (filter (\<lambda>i. \<not> fit_y clf ! i) ?ns) = length ?ns"
    by (rule sum_length_filter_compl)
  then show ?thesis
    by (simp add: votes_def kneighbors_facts(1) [OF assms])
qed

lemma scenario_fit:
  "fit (KNeighborsClassifier 1 Euclidean) [[0], [10]] [True, False]
     = Inr \<lparr>n_neighbors = 1, dist_metric = Euclidean, fit_X = [[0], [10]], fit_y = [True, False]\<rparr>"
  by (simp add: fit_def KNeighborsClassifier_def)

lemma scenario_near_first:
  "predict \<lparr>n_neighbors = 1, dist_metric = Euclidean, fit_X = [[0], [10]], fit_y = [True, False]\<rparr> [1]"
  by code_simp

lemma scenario_near_second:
  "\<not> predict \<lparr>n_neighbors = 1, dist_metric = Euclidean, fit_X = [[0], [10]], fit_y = [True, False]\<rparr> [9]"
  by code_simp

text \<open>
  C8. For every fitted classifier with neighbour count \<open>k\<close> and every query, the
  neighbours are \<open>k\<close> distinct training positions such that no training point outside
  them is nearer to the query, under the classifier's metric, than one of them; the
  predicted probability is the fraction of these \<open>k\<close> neighbours whose label is true
  and lies between 0 and 1; the prediction is their majority vote. In particular the
  1-neighbour Euclidean classifier fitted on \<open>([0], True)\<close> and \<open>([10], False)\<close> predicts
  \<open>True\<close> at \<open>[1]\<close> and \<open>False\<close> at \<open>[9]\<close>.
\<close>

theorem knn_predict_proba_fraction:
  "(fit (KNeighborsClassifier k m) X y = Inr clf \<longrightarrow>
      length (kneighbors clf q) = k \<and> distinct (kneighbors clf q)
      \<and> (\<forall>i \<in> set (kneighbors clf q). i < length X
            \<and> (\<forall>j < length X. j \<notin> set (kneighbors clf q)
                  \<longrightarrow> sq_dist m (X ! i) q \<le> sq_dist m (X ! j) q))
      \<and> predict_proba clf q = of_nat (card {i \<in> set (kneighbors clf q). y ! i}) / of_nat k
      \<and> 0 \<le> predict_proba clf q \<and> predict_proba clf q \<le> 1
      \<and> predict clf q
          = (card {i \<in> set (kneighbors clf q). \<not> y ! i} < card {i \<in> set (kneighbors clf q). y ! i}))
   \<and> (\<exists>c. fit (KNeighborsClassifier 1 Euclidean) [[0], [10]] [True, False] = Inr c
          \<and> predict c [1] = True \<and> predict c [9] = False)"
proof (intro conjI impI)
  assume a: "fit (KNeighborsClassifier k m) X y = Inr clf"
  note f = fit_Inr [OF a]
  note kn = kneighbors_facts [OF a]
  let ?ns = "kneighbors clf q"
  have y: "fit_y clf = y"
    by (simp add: f(1))
  have vt: "votes clf q True = card {i \<in> set ?ns. y ! i}"
    using votes_card [OF kn(2), of y True q] by (simp add: votes_def y)
  have vf: "votes clf q False = card {i \<in> set ?ns. \<not> y ! i}"
    using votes_card [OF kn(2), of y False q] by (simp add: votes_def y)
  have k: "n_neighbors clf = k"
    by (simp add: f(1))
  show "length ?ns = k" by (rule kn(1))
  show "distinct ?ns" by (rule kn(2))
  show "\<forall>i \<in> set ?ns. i < length X
            \<and> (\<forall>j < length X. j \<notin> set ?ns \<longrightarrow> sq_dist m (X ! i) q \<le> sq_dist m (X ! j) q)"
    using kn(3) kn(4) by blast
  show p: "predict_proba clf q = of_nat (card {i \<in> set ?ns. y ! i}) / of_nat k"
    by (simp only: predict_proba_def vt k)
  show "0 \<le> predict_proba clf q"
    unfolding p by simp
  have "card {i \<in> set ?ns. y ! i} \<le> k"
    using votes_total [OF a, of q] vt by simp
  then show "predict_proba clf q \<le> 1"
    unfolding p using f(2) by (simp add: divide_le_eq_1)
  show "predict clf q = (card {i \<in> set ?ns. \<not> y ! i} < card {i \<in> set ?ns. y ! i})"
    by (simp only: predict_def vt vf)
next
  show "\<exists>c. fit (KNeighborsClassifier 1 Euclidean) [[0], [10]] [True, False] = Inr c
          \<and> predict c [1] = True \<and> predict c [9] = False"
    using scenario_fit scenario_near_first scenario_near_second by simp
qed

lemma three_neighbours_fit:
  "fit (KNeighborsClassifier 3 Euclidean) [[0], [1], [5], [10]] [True, False, True, False]
     = Inr \<lparr>n_neighbors = 3, dist_metric = Euclidean,
            fit_X = [[0], [1], [5], [10]], fit_y = [True, False, True, False]\<rparr>"
  by (simp add: fit_def KNeighborsClassifier_def)

lemma three_neighbours_example:
  "kneighbors \<lparr>n_neighbors = 3, dist_metric = Euclidean,
            fit_X = [[0], [1], [5], [10]], fit_y = [True, False, True, False]\<rparr> [2] = [1, 0, 2]"
  "predict_proba \<lparr>n_neighbors = 3, dist_metric = Euclidean,
            fit_X = [[0], [1], [5], [10]], fit_y = [True, False, True, False]\<rparr> [2] = 2 / 3"
  by code_simp+

theorem knn_predict_proba_fraction_witness:
  "fit (KNeighborsClassifier 3 Euclidean) [[0], [1], [5], [10]] [True, False, True, False]
     = Inr \<lparr>n_neighbors = 3, dist_metric = Euclidean,
            fit_X = [[0], [1], [5], [10]], fit_y = [True, False, True, False]\<rparr>
   \<and> length (kneighbors \<lparr>n_neighbors = 3, dist_metric = Euclidean,
            fit_X = [[0], [1], [5], [10]], fit_y = [True, False, True, False]\<rparr> [2]) = 3
   \<and> distinct (kneighbors \<lparr>n_neighbors = 3, dist_metric = Euclidean,
            fit_X = [[0], [1], [5], [10]], fit_y = [True, False, True, False]\<rparr> [2])
   \<and> 0 \<le> predict_proba \<lparr>n_neighbors = 3, dist_metric = Euclidean,
            fit_X = [[0], [1], [5], [10]], fit_y = [True, False, True, False]\<rparr> [2]
   \<and> predict_proba \<lparr>n_neighbors = 3, dist_metric = Euclidean,
            fit_X = [[0], [1], [5], [10]], fit_y = [True, False, True, False]\<rparr> [2] \<le> 1"
proof -
  let ?c = "\<lparr>n_neighbors = 3, dist_metric = Euclidean,
            fit_X = [[0], [1], [5], [10]], fit_y = [True, False, True, False]\<rparr>"
  have h: "fit (KNeighborsClassifier 3 Euclidean) [[0], [1], [5], [10]] [True, False, True, False]
     = Inr ?c"
    by (rule three_neighbours_fit)
  show ?thesis
    using h knn_predict_proba_fraction [of 3 Euclidean "[[0], [1], [5], [10]]"
        "[True, False, True, False]" ?c "[2]"]
    by blast
qed

section \<open>The Mahalanobis cell\<close>


lemma mahalanobis_fit_unfold:
  "mahalanobis_fit DataFrame_cov linalg_inv k sp s =
     (case linalg_inv (DataFrame_cov (X_train sp)) of
        Inl e \<Rightarrow> Inl e
      | Inr VI \<Rightarrow>
          (case fit (KNeighborsClassifier k (Mahalanobis VI)) (X_train sp) (y_train sp) of
             Inl e \<Rightarrow> Inl e
           | Inr fitted \<Rightarrow> Inr (s\<lparr>cov := DataFrame_cov (X_train sp), inv_cov := VI, KNC := fitted\<rparr>)))"
  by (simp add: mahalanobis_fit_def Let_def split: sum.splits)

lemma fit_keeps_metric: "fit c X y = Inr c' \<Longrightarrow> dist_metric c' = dist_metric c"
  by (auto simp: fit_def split: if_splits)

text \<open>
  C6. Under the Mahalanobis metric the inverse covariance supplied to the classifier is
  computed from the training features of the current trial only: two runs of the
  fitting cell whose splits share the training partition, and differ arbitrarily in the
  test rows and in the notebook variables left by earlier cells, both fail with the same
  error or yield the same fitted classifier; and the metric of a fitted classifier is
  the inverse of the covariance of the training features.
\<close>

theorem mahalanobis_metric_from_training_only:
  assumes "X_train sp1 = X_train sp2" and "y_train sp1 = y_train sp2"
  shows "map_sum id KNC (mahalanobis_fit DataFrame_cov linalg_inv k sp1 s1)
           = map_sum id KNC (mahalanobis_fit DataFrame_cov linalg_inv k sp2 s2)
     \<and> (\<forall>s'. mahalanobis_fit DataFrame_cov linalg_inv k sp1 s1 = Inr s' \<longrightarrow>
            cov s' = DataFrame_cov (X_train sp1)
          \<and> linalg_inv (cov s') = Inr (inv_cov s')
          \<and> dist_metric (KNC s') = Mahalanobis (inv_cov s'))"
proof (intro conjI allI impI)
  show "map_sum id KNC (mahalanobis_fit DataFrame_cov linalg_inv k sp1 s1)
           = map_sum id KNC (mahalanobis_fit DataFrame_cov linalg_inv k sp2 s2)"
    unfolding mahalanobis_fit_unfold assms by (simp split: sum.splits)
next
  fix s'
  assume a: "mahalanobis_fit DataFrame_cov linalg_inv k sp1 s1 = Inr s'"
  then obtain VI fitted where
    vi: "linalg_inv (DataFrame_cov (X_train sp1)) = Inr VI" and
    fitted: "fit (KNeighborsClassifier k (Mahalanobis VI)) (X_train sp1) (y_train sp1) = Inr fitted" and
    s': "s' = s1\<lparr>cov := DataFrame_cov (X_train sp1), inv_cov := VI, KNC := fitted\<rparr>"
    unfolding mahalanobis_fit_unfold by (auto split: sum.splits)
  show "cov s' = DataFrame_cov (X_train sp1)"
    by (simp add: s')
  show "linalg_inv (cov s') = Inr (inv_cov s')"
    by (simp add: s' vi)
  show "dist_metric (KNC s') = Mahalanobis (inv_cov s')"
    using fit_keeps_metric [OF fitted] by (simp add: s' KNeighborsClassifier_def)
qed

lemma mahalanobis_fit_example:
  "mahalanobis_fit column_cov scalar_inv 1
      \<lparr>ind_train = [1, 2], ind_test = [0],
       X_train = [[1], [3]], X_test = [[7]], y_train = [True, False], y_test = [True]\<rparr>
      \<lparr>cov = [[9]], inv_cov = [], KNC = KNeighborsClassifier 9 Euclidean\<rparr>
   = Inr \<lparr>cov = [[2]], inv_cov = [[1 / 2]],
          KNC = \<lparr>n_neighbors = 1, dist_metric = Mahalanobis [[1 / 2]],
                 fit_X = [[1], [3]], fit_y = [True, False]\<rparr>\<rparr>"
  by (simp add: mahalanobis_fit_def column_cov_def scalar_inv_def fit_def
      KNeighborsClassifier_def Let_def)

theorem mahalanobis_metric_from_training_only_witness:
  "X_train \<lparr>ind_train = [1, 2], ind_test = [0],
       X_train = [[1], [3]], X_test = [[7 :: rat]], y_train = [True, False], y_test = [True]\<rparr>
     = X_train \<lparr>ind_train = [1, 2], ind_test = [3],
       X_train = [[1], [3]], X_test = [[100 :: rat]], y_train = [True, False], y_test = [False]\<rparr>
   \<and> y_train \<lparr>ind_train = [1, 2], ind_test = [0],
       X_train = [[1], [3 :: rat]], X_test = [[7 :: rat]], y_train = [True, False], y_test = [True]\<rparr>
     = y_train \<lparr>ind_train = [1, 2], ind_test = [3],
       X_train = [[1], [3 :: rat]], X_test = [[100 :: rat]], y_train = [True, False], y_test = [False]\<rparr>
   \<and> map_sum id KNC (mahalanobis_fit column_cov scalar_inv 1
        \<lparr>ind_train = [1, 2], ind_test = [0],
         X_train = [[1], [3]], X_test = [[7]], y_train = [True, False], y_test = [True]\<rparr>
        \<lparr>cov = [[9]], inv_cov = [], KNC = KNeighborsClassifier 9 Euclidean\<rparr>)
     = map_sum id KNC (mahalanobis_fit column_cov scalar_inv 1
        \<lparr>ind_train = [1, 2], ind_test = [3],
         X_train = [[1], [3]], X_test = [[100]], y_train = [True, False], y_test = [False]\<rparr>
        \<lparr>cov = [[4]], inv_cov = [[5]], KNC = KNeighborsClassifier 3 Euclidean\<rparr>)
   \<and> map_sum id KNC (mahalanobis_fit column_cov scalar_inv 1
        \<lparr>ind_train = [1, 2], ind_test = [0],
         X_train = [[1], [3]], X_test = [[7]], y_train = [True, False], y_test = [True]\<rparr>
        \<lparr>cov = [[9]], inv_cov = [], KNC = KNeighborsClassifier 9 Euclidean\<rparr>)
     = Inr \<lparr>n_neighbors = 1, dist_metric = Mahalanobis [[1 / 2]],
            fit_X = [[1], [3]], fit_y = [True, False]\<rparr>"
proof -
  let ?sp1 = "\<lparr>ind_train = [1, 2], ind_test = [0],
       X_train = [[1], [3 :: rat]], X_test = [[7 :: rat]], y_train = [True, False], y_test = [True]\<rparr>"
  let ?sp2 = "\<lparr>ind_train = [1, 2], ind_test = [3],
       X_train = [[1], [3 :: rat]], X_test = [[100 :: rat]], y_train = [True, False], y_test = [False]\<rparr>"
  have h1: "X_train ?sp1 = X_train ?sp2" by simp
  have h2: "y_train ?sp1 = y_train ?sp2" by simp
  note t = mahalanobis_metric_from_training_only [OF h1 h2, of column_cov scalar_inv 1
      "\<lparr>cov = [[9]], inv_cov = [], KNC = KNeighborsClassifier 9 Euclidean\<rparr>"
      "\<lparr>cov = [[4]], inv_cov = [[5]], KNC = KNeighborsClassifier 3 Euclidean\<rparr>"]
  show ?thesis
    using h1 h2 t mahalanobis_fit_example by simp
qed

text \<open>
  The covariance of all rows that line 476 leaves in \<^verbatim>\<open>cov\<close> does not outlive the loop
  body, which assigns \<^verbatim>\<open>cov\<close> anew from the training rows.
\<close>

lemma stale_cov_overwritten:
  "mahalanobis_fit DataFrame_cov linalg_inv k sp (cov_cell DataFrame_cov features s)
     = mahalanobis_fit DataFrame_cov linalg_inv k sp s"
  by (simp add: mahalanobis_fit_unfold cov_cell_def split: sum.splits)

text \<open>
  The notebook catches nothing: when the inverse refuses the covariance of the training
  rows, the trial ends with that error, and no classifier is fitted or evaluated.
\<close>

lemma mahalanobis_trial_inverse_error:
  assumes "linalg_inv (DataFrame_cov (X_train sp)) = Inl e"
  shows "mahalanobis_trial DataFrame_cov linalg_inv k sp s = Inl e"
  using assms by (simp add: mahalanobis_trial_def mahalanobis_fit_unfold)

section \<open>Whole trials\<close>

lemma euclidean_trial_example:
  "euclidean_trial 1
     \<lparr>ind_train = [0, 3], ind_test = [1, 2],
      X_train = [[0], [10]], X_test = [[1], [9]],
      y_train = [True, False], y_test = [True, False]\<rparr>
   = Inr \<lparr>correct = 2, incorrect = 0,
          percentage_correct = Finite 100, percentage_incorrect = Finite 0\<rparr>"
  by code_simp

lemma euclidean_trial_too_few_rows:
  "euclidean_trial 9
     \<lparr>ind_train = [0, 3], ind_test = [1, 2],
      X_train = [[0], [10]], X_test = [[1], [9]],
      y_train = [True, False], y_test = [True, False]\<rparr>
   = Inl InvalidArgument"
  by code_simp

lemma mahalanobis_trial_example:
  "mahalanobis_trial column_cov scalar_inv 1
     \<lparr>ind_train = [1, 2], ind_test = [0],
      X_train = [[1], [3]], X_test = [[7]], y_train = [True, False], y_test = [True]\<rparr>
     \<lparr>cov = [[9]], inv_cov = [], KNC = KNeighborsClassifier 9 Euclidean\<rparr>
   = Inr (\<lparr>cov = [[2]], inv_cov = [[1 / 2]],
           KNC = \<lparr>n_neighbors = 1, dist_metric = Mahalanobis [[1 / 2]],
                  fit_X = [[1], [3]], fit_y = [True, False]\<rparr>\<rparr>,
          \<lparr>correct = 0, incorrect = 1,
           percentage_correct = Finite 0, percentage_incorrect = Finite 100\<rparr>)"
  by code_simp

end
